theory Spec2Isabelle
  imports Complex_Main
begin

section \<open>Values, handles and observable events\<close>

text \<open>
  The three example scripts (\<^verbatim>\<open>airbnb_use.py\<close>, \<^verbatim>\<open>browser_use.py\<close>,
  \<^verbatim>\<open>mcp_everything.py\<close>) are call-site code over external libraries. The model
  keeps the scripts' own control flow and literals, and makes every call into a library an
  observable event whose outcome (normal return or raised exception) is a parameter.

  A Python \<^verbatim>\<open>str\<close> is a list of code points; every code point of the literals used
  here is below 256, so \<^typ>\<open>string\<close> holds them (\<^verbatim>\<open>U+00F6\<close> is \<open>CHR 0xF6\<close>).
  A dict literal is an association list in source order.
\<close>

datatype exn = PyExc string

datatype pyval =
    Str string
  | List "pyval list"
  | Dict "(string \<times> pyval) list"

text \<open>
  The objects the libraries hand back are opaque to the scripts; a handle is identified by
  the constructor call that made it. A keyword argument that a script does not pass is
  \<open>None\<close>. The temperature is the decimal literal as the source writes it.
\<close>

datatype client = Client_from_config_file string | Client_of_config pyval

datatype llm = Llm string string rat

datatype agent = Agent llm client nat "bool option"

datatype event =
    Import_module string
  | Asyncio_run
  | Load_dotenv
  | MCPClient_from_config_file string
  | MCPClient_init pyval
  | ChatOllama_init string string rat
  | MCPAgent_init llm client nat "bool option"
  | Agent_run agent string nat
  | Print string
  | Sessions_read client "string list"
  | Close_all_sessions client

text \<open>
  One run of a script makes each external call at most once, so the behaviour of the
  libraries in a run is the outcome of each call: \<open>None\<close> (or \<open>Inr\<close>) for a normal
  return, an exception otherwise. \<open>sessions_value\<close> is what \<^verbatim>\<open>client.sessions\<close>
  holds (the names of the open sessions) at the moment the script reads it.
  \<open>library_output\<close> is the text a library call writes to standard output while it runs
  (progress lines of a verbose agent, log lines): the scripts do not control it.
\<close>

record world =
  import_outcome :: "string \<Rightarrow> exn option"
  load_dotenv_outcome :: "exn option"
  client_outcome :: "exn option"
  llm_outcome :: "exn option"
  agent_outcome :: "exn option"
  agent_run_outcome :: "exn + string"
  print_outcome :: "exn option"
  sessions_value :: "string list"
  close_outcome :: "exn option"
  library_output :: "event \<Rightarrow> string"

text \<open>
  What the interpreter gives a module: \<^verbatim>\<open>__name__\<close>, \<^verbatim>\<open>__file__\<close>, and the
  working directory of the process.
\<close>

record module_env =
  dunder_name :: string
  dunder_file :: string
  cwd :: string

section \<open>Computations: a trace of events and an outcome\<close>

type_synonym 'a io = "event list \<times> (exn + 'a)"

definition trace :: "'a io \<Rightarrow> event list" where
  "trace m = fst m"

definition outcome :: "'a io \<Rightarrow> exn + 'a" where
  "outcome m = snd m"

definition ret :: "'a \<Rightarrow> 'a io" where
  "ret x = ([], Inr x)"

definition bind :: "'a io \<Rightarrow> ('a \<Rightarrow> 'b io) \<Rightarrow> 'b io" where
  "bind m f =
     (case m of
        (t, Inl e) \<Rightarrow> (t, Inl e)
      | (t, Inr x) \<Rightarrow> (case f x of (t', r) \<Rightarrow> (t @ t', r)))"

text \<open>An external call: the event, then its outcome.\<close>

definition call :: "event \<Rightarrow> exn option \<Rightarrow> 'a \<Rightarrow> 'a io" where
  "call ev out x = ([ev], case out of None \<Rightarrow> Inr x | Some e \<Rightarrow> Inl e)"

text \<open>
  Python's \<^verbatim>\<open>try: body finally: fin\<close>. The \<^verbatim>\<open>finally\<close> suite runs however the body
  ended. If the suite raises, that exception leaves the statement; otherwise the body's own
  outcome does.
\<close>

definition try_finally :: "'a io \<Rightarrow> unit io \<Rightarrow> 'a io" where
  "try_finally body fin =
     (case body of (t, r) \<Rightarrow>
        (case fin of
           (t', Inl e') \<Rightarrow> (t @ t', Inl e')
         | (t', Inr u) \<Rightarrow> (t @ t', r)))"

section \<open>The library calls the scripts make\<close>

definition import_modules :: "world \<Rightarrow> string list \<Rightarrow> unit io" where
  "import_modules w ms =
     foldl (\<lambda>m n. bind m (\<lambda>u. call (Import_module n) (import_outcome w n) ())) (ret ()) ms"

definition load_dotenv :: "world \<Rightarrow> unit io" where
  "load_dotenv w = call Load_dotenv (load_dotenv_outcome w) ()"

definition from_config_file :: "world \<Rightarrow> string \<Rightarrow> client io" where
  "from_config_file w path =
     call (MCPClient_from_config_file path) (client_outcome w) (Client_from_config_file path)"

definition MCPClient :: "world \<Rightarrow> pyval \<Rightarrow> client io" where
  "MCPClient w config = call (MCPClient_init config) (client_outcome w) (Client_of_config config)"

definition ChatOllama :: "world \<Rightarrow> string \<Rightarrow> string \<Rightarrow> rat \<Rightarrow> llm io" where
  "ChatOllama w model base_url temperature =
     call (ChatOllama_init model base_url temperature) (llm_outcome w)
       (Llm model base_url temperature)"

definition MCPAgent :: "world \<Rightarrow> llm \<Rightarrow> client \<Rightarrow> nat \<Rightarrow> bool option \<Rightarrow> agent io" where
  "MCPAgent w l c max_steps verbose =
     call (MCPAgent_init l c max_steps verbose) (agent_outcome w) (Agent l c max_steps verbose)"

definition agent_run :: "world \<Rightarrow> agent \<Rightarrow> string \<Rightarrow> nat \<Rightarrow> string io" where
  "agent_run w a task max_steps = ([Agent_run a task max_steps], agent_run_outcome w)"

definition print :: "world \<Rightarrow> string \<Rightarrow> unit io" where
  "print w s = call (Print s) (print_outcome w) ()"

definition client_sessions :: "world \<Rightarrow> client \<Rightarrow> (string list) io" where
  "client_sessions w c = ([Sessions_read c (sessions_value w)], Inr (sessions_value w))"

definition close_all_sessions :: "world \<Rightarrow> client \<Rightarrow> unit io" where
  "close_all_sessions w c = call (Close_all_sessions c) (close_outcome w) ()"

definition asyncio_run :: "'a io \<Rightarrow> 'a io" where
  "asyncio_run coro = bind ([Asyncio_run], Inr ()) (\<lambda>u. coro)"

text \<open>
  The formatted literal \<^verbatim>\<open>f"\nResult: {result}"\<close> that each script prints: a line
  break, \<^verbatim>\<open>Result: \<close> and the text of the result.
\<close>

definition result_fstring :: "string \<Rightarrow> string" where
  "result_fstring result = CHR 0x0A # ''Result: '' @ result"

subsection \<open>\<^verbatim>\<open>os.path\<close> (the POSIX implementation of the standard library)\<close>

text \<open>
  \<^verbatim>\<open>s.rfind(c)\<close>: the highest index at which \<open>c\<close> occurs, or \<open>-1\<close>. The scan keeps
  the last index seen.
\<close>

fun rfind_from :: "string \<Rightarrow> char \<Rightarrow> int \<Rightarrow> int \<Rightarrow> int" where
  "rfind_from [] c i found = found"
| "rfind_from (x # xs) c i found = rfind_from xs c (i + 1) (if x = c then i else found)"

definition rfind :: "string \<Rightarrow> char \<Rightarrow> int" where
  "rfind s c = rfind_from s c 0 (- 1)"

definition rstrip :: "string \<Rightarrow> char \<Rightarrow> string" where
  "rstrip s c = rev (dropWhile (\<lambda>x. x = c) (rev s))"

text \<open>
  \<^verbatim>\<open>
  def dirname(p):
      i = p.rfind('/') + 1
      head = p[:i]
      if head and head != '/'*len(head):
          head = head.rstrip('/')
      return head
  \<close>
\<close>

definition os_path_dirname :: "string \<Rightarrow> string" where
  "os_path_dirname p =
     (let i = rfind p CHR ''/'' + 1;
          head = take (nat i) p
      in if head \<noteq> [] \<and> head \<noteq> replicate (length head) CHR ''/''
         then rstrip head CHR ''/'' else head)"

text \<open>
  \<^verbatim>\<open>
  def join(a, b):
      path = a
      if b.startswith('/'): path = b
      elif not path or path.endswith('/'): path += b
      else: path += '/' + b
      return path
  \<close>
\<close>

definition os_path_join :: "string \<Rightarrow> string \<Rightarrow> string" where
  "os_path_join a b =
     (if take 1 b = ''/'' then b
      else if a = [] \<or> last a = CHR ''/'' then a @ b
      else a @ ''/'' @ b)"

section \<open>\<^verbatim>\<open>examples/airbnb_use.py\<close>\<close>

text \<open>
  The first argument of \<^verbatim>\<open>agent.run\<close>: three adjacent string literals, which the
  parser joins into one.
\<close>

definition airbnb_task :: string where
  "airbnb_task =
     ''Find me a nice place to stay in G'' @ [CHR 0xF6] @ ''teborg, Sweden for 2 adults ''
     @ ''for a week in August 2025. I prefer places with a pool and ''
     @ ''good reviews. Show me the top 3 options.''"

definition run_airbnb_example :: "module_env \<Rightarrow> world \<Rightarrow> unit io" where
  "run_airbnb_example env w =
     bind (load_dotenv w) (\<lambda>u.
     bind (from_config_file w
             (os_path_join (os_path_dirname (dunder_file env)) ''airbnb_mcp.json'')) (\<lambda>client.
     bind (ChatOllama w ''qwen3:30b'' ''http://localhost:11434'' (- (1 / 10))) (\<lambda>llm.
     bind (MCPAgent w llm client 10 (Some True)) (\<lambda>agent.
     try_finally
       (bind (agent_run w agent airbnb_task 30) (\<lambda>result.
        print w (result_fstring result)))
       (bind (client_sessions w client) (\<lambda>sessions.
        if sessions \<noteq> [] then close_all_sessions w client else ret ()))))))"

definition airbnb_use :: "module_env \<Rightarrow> world \<Rightarrow> unit io" where
  "airbnb_use env w =
     bind (import_modules w [''asyncio'', ''os'', ''dotenv'', ''langchain_ollama'', ''mcp_use''])
       (\<lambda>u. if dunder_name env = ''__main__''
             then asyncio_run (run_airbnb_example env w) else ret ())"

section \<open>\<^verbatim>\<open>examples/browser_use.py\<close>\<close>

text \<open>
  The first argument of \<^verbatim>\<open>agent.run\<close>: a triple-quoted literal, with its line
  breaks and indentation.
\<close>

definition browser_task :: string where
  "browser_task =
     CHR 0x0A # ''        Navigate to https://github.com/mcp-use/mcp-use, give a star to the project and write''
     @ CHR 0x0A # ''        a summary of the project.''
     @ CHR 0x0A # ''        ''"

text \<open>The entry point \<^verbatim>\<open>main\<close> of this script.\<close>

definition browser_main :: "module_env \<Rightarrow> world \<Rightarrow> unit io" where
  "browser_main env w =
     bind (load_dotenv w) (\<lambda>u.
     bind (from_config_file w
             (os_path_join (os_path_dirname (dunder_file env)) ''browser_mcp.json'')) (\<lambda>client.
     bind (ChatOllama w ''qwen3:30b'' ''http://localhost:11434'' (- (1 / 10))) (\<lambda>llm.
     bind (MCPAgent w llm client 10 None) (\<lambda>agent.
     bind (agent_run w agent browser_task 30) (\<lambda>result.
     print w (result_fstring result))))))"

definition browser_use :: "module_env \<Rightarrow> world \<Rightarrow> unit io" where
  "browser_use env w =
     bind (import_modules w [''asyncio'', ''os'', ''dotenv'', ''langchain_ollama'', ''mcp_use''])
       (\<lambda>u. if dunder_name env = ''__main__''
             then asyncio_run (browser_main env w) else ret ())"

section \<open>\<^verbatim>\<open>examples/mcp_everything.py\<close>\<close>

definition everything_server :: pyval where
  "everything_server =
     Dict [(''mcpServers'',
       Dict [(''everything'',
         Dict [(''command'', Str ''npx''),
               (''args'', List [Str ''-y'', Str ''@modelcontextprotocol/server-everything''])])])]"

definition everything_task :: string where
  "everything_task =
     CHR 0x0A # ''        Hello, you are a tester can you please answer the follwing questions:''
     @ CHR 0x0A # ''        - Which resources do you have access to?''
     @ CHR 0x0A # ''        - Which prompts do you have access to?''
     @ CHR 0x0A # ''        - Which tools do you have access to?''
     @ CHR 0x0A # ''        ''"

text \<open>The entry point \<^verbatim>\<open>main\<close> of this script.\<close>

definition everything_main :: "world \<Rightarrow> unit io" where
  "everything_main w =
     bind (load_dotenv w) (\<lambda>u.
     bind (MCPClient w everything_server) (\<lambda>client.
     bind (ChatOllama w ''qwen3:30b'' ''http://localhost:11434'' (- (1 / 10))) (\<lambda>llm.
     bind (MCPAgent w llm client 30 None) (\<lambda>agent.
     bind (agent_run w agent everything_task 30) (\<lambda>result.
     print w (result_fstring result))))))"

definition mcp_everything :: "module_env \<Rightarrow> world \<Rightarrow> unit io" where
  "mcp_everything env w =
     bind (import_modules w [''asyncio'', ''dotenv'', ''langchain_ollama'', ''mcp_use''])
       (\<lambda>u. if dunder_name env = ''__main__''
             then asyncio_run (everything_main w) else ret ())"

subsection \<open>The three scripts together\<close>

datatype script = Airbnb_use | Browser_use | Mcp_everything

fun entry_point :: "script \<Rightarrow> module_env \<Rightarrow> world \<Rightarrow> unit io" where
  "entry_point Airbnb_use env w = run_airbnb_example env w"
| "entry_point Browser_use env w = browser_main env w"
| "entry_point Mcp_everything env w = everything_main w"

section \<open>Observations on a run\<close>

fun is_print :: "event \<Rightarrow> bool" where
  "is_print (Print s) = True"
| "is_print e = False"

text \<open>
  \<^verbatim>\<open>print(s)\<close> writes \<open>s\<close> and a line break to standard output; every other call
  writes what the library chooses to. Standard output of a run is the concatenation, in the
  order of the calls.
\<close>

fun printed :: "world \<Rightarrow> event \<Rightarrow> string" where
  "printed w (Print s) = s @ [CHR 0x0A]"
| "printed w e = library_output w e"

definition stdout_text :: "world \<Rightarrow> event list \<Rightarrow> string" where
  "stdout_text w t = concat (map (printed w) t)"

text \<open>A run in which the libraries write nothing to standard output.\<close>

definition libraries_silent :: "world \<Rightarrow> event list \<Rightarrow> bool" where
  "libraries_silent w t = list_all (\<lambda>e. is_print e \<or> library_output w e = []) t"

fun is_import :: "event \<Rightarrow> bool" where
  "is_import (Import_module n) = True"
| "is_import e = False"

text \<open>The lines of a text: each ends at a line break, the last one also at the end.\<close>

fun lines_of :: "string \<Rightarrow> string list" where
  "lines_of [] = []"
| "lines_of (c # cs) =
     (if c = CHR 0x0A then [] # lines_of cs
      else (case lines_of cs of [] \<Rightarrow> [[c]] | l # ls \<Rightarrow> (c # l) # ls))"

text \<open>The name of the library operation an event is a call of.\<close>

fun call_name :: "event \<Rightarrow> string" where
  "call_name (Import_module n) = ''import''"
| "call_name Asyncio_run = ''asyncio.run''"
| "call_name Load_dotenv = ''load_dotenv''"
| "call_name (MCPClient_from_config_file p) = ''MCPClient.from_config_file''"
| "call_name (MCPClient_init c) = ''MCPClient''"
| "call_name (ChatOllama_init m b t) = ''ChatOllama''"
| "call_name (MCPAgent_init l c n v) = ''MCPAgent''"
| "call_name (Agent_run a t n) = ''agent.run''"
| "call_name (Print s) = ''print''"
| "call_name (Sessions_read c ss) = ''client.sessions''"
| "call_name (Close_all_sessions c) = ''client.close_all_sessions''"




definition agent_result :: "world \<Rightarrow> string" where
  "agent_result w = (case agent_run_outcome w of Inl e \<Rightarrow> [] | Inr r \<Rightarrow> r)"

text \<open>Lookup in a dict value.\<close>

fun dict_get :: "pyval \<Rightarrow> string \<Rightarrow> pyval option" where
  "dict_get (Dict kvs) k = map_of kvs k"
| "dict_get v k = None"

fun dict_keys :: "pyval \<Rightarrow> string list option" where
  "dict_keys (Dict kvs) = Some (map fst kvs)"
| "dict_keys v = None"

text \<open>The values the scripts build more than once.\<close>

abbreviation ollama :: llm where
  "ollama \<equiv> Llm ''qwen3:30b'' ''http://localhost:11434'' (- (1 / 10))"

abbreviation config_path :: "module_env \<Rightarrow> string \<Rightarrow> string" where
  "config_path env name \<equiv> os_path_join (os_path_dirname (dunder_file env)) name"

abbreviation airbnb_client :: "module_env \<Rightarrow> client" where
  "airbnb_client env \<equiv> Client_from_config_file (config_path env ''airbnb_mcp.json'')"

abbreviation browser_client :: "module_env \<Rightarrow> client" where
  "browser_client env \<equiv> Client_from_config_file (config_path env ''browser_mcp.json'')"




subsection \<open>Concrete runs\<close>

text \<open>
  A run where every call returns, the agent answers \<open>ok\<close>, one session is open at the
  end and the libraries write nothing to standard output; and the script started as the main
  program from another directory.
\<close>

definition world_ok :: world where
  "world_ok =
     \<lparr>import_outcome = (\<lambda>n. None), load_dotenv_outcome = None, client_outcome = None,
      llm_outcome = None, agent_outcome = None, agent_run_outcome = Inr ''ok'',
      print_outcome = None, sessions_value = [''airbnb''], close_outcome = None,
      library_output = (\<lambda>e. [])\<rparr>"

text \<open>Variants: the agent fails; closing fails as well; no session is open; a two-line answer.\<close>

definition world_agent_fails :: world where
  "world_agent_fails = world_ok\<lparr>agent_run_outcome := Inl (PyExc ''agent failed'')\<rparr>"

definition world_close_fails :: world where
  "world_close_fails = world_agent_fails\<lparr>close_outcome := Some (PyExc ''close failed'')\<rparr>"

definition world_no_sessions :: world where
  "world_no_sessions = world_ok\<lparr>sessions_value := []\<rparr>"

definition world_two_lines :: world where
  "world_two_lines = world_ok\<lparr>agent_run_outcome := Inr (''first'' @ [CHR 0x0A] @ ''second'')\<rparr>"

text \<open>A verbose agent: \<^verbatim>\<open>agent.run\<close> reports a step on standard output.\<close>

definition world_verbose :: world where
  "world_verbose =
     world_two_lines\<lparr>library_output :=
       (\<lambda>e. if call_name e = ''agent.run'' then ''Step 1'' @ [CHR 0x0A] else [])\<rparr>"

definition env_main :: "string \<Rightarrow> module_env" where
  "env_main file = \<lparr>dunder_name = ''__main__'', dunder_file = file, cwd = ''/tmp''\<rparr>"

definition env_imported :: "string \<Rightarrow> module_env" where
  "env_imported file = \<lparr>dunder_name = ''airbnb_use'', dunder_file = file, cwd = ''/tmp''\<rparr>"

section \<open>Running the computations\<close>

lemma trace_pair: "trace (t, r) = t"
  by (simp add: trace_def)

lemma outcome_pair: "outcome (t, r) = r"
  by (simp add: outcome_def)

lemma bind_call_None: "out = None \<Longrightarrow> bind (call ev out x) f = (ev # trace (f x), outcome (f x))"
  by (simp add: bind_def call_def trace_def outcome_def split: prod.splits)

lemma bind_call_Some: "out = Some e \<Longrightarrow> bind (call ev out x) f = ([ev], Inl e)"
  by (simp add: bind_def call_def)

lemma trace_bind:
  "trace (bind m f) = (case outcome m of Inl e \<Rightarrow> trace m | Inr x \<Rightarrow> trace m @ trace (f x))"
  by (simp add: bind_def trace_def outcome_def split: prod.splits sum.splits)

lemma outcome_bind:
  "outcome (bind m f) = (case outcome m of Inl e \<Rightarrow> Inl e | Inr x \<Rightarrow> outcome (f x))"
  by (simp add: bind_def outcome_def split: prod.splits sum.splits)

lemma run_then_print:
  "bind (agent_run w a t n) (\<lambda>result. print w (msg result)) =
     (Agent_run a t n #
        (case agent_run_outcome w of Inl e \<Rightarrow> [] | Inr r \<Rightarrow> [Print (msg r)]),
      case agent_run_outcome w of
        Inl e \<Rightarrow> Inl e
      | Inr r \<Rightarrow> (case print_outcome w of None \<Rightarrow> Inr () | Some e \<Rightarrow> Inl e))"
  by (simp add: bind_def agent_run_def print_def call_def split: sum.splits option.splits)

lemma cleanup_block:
  "bind (client_sessions w c) (\<lambda>sessions.
      if sessions \<noteq> [] then close_all_sessions w c else ret ()) =
     (Sessions_read c (sessions_value w) #
        (if sessions_value w \<noteq> [] then [Close_all_sessions c] else []),
      if sessions_value w \<noteq> [] then (case close_outcome w of None \<Rightarrow> Inr () | Some e \<Rightarrow> Inl e)
      else Inr ())"
  by (simp add: bind_def client_sessions_def close_all_sessions_def call_def ret_def)

lemma run_airbnb_example_eq:
  "run_airbnb_example env w =
     (case load_dotenv_outcome w of
        Some e \<Rightarrow> ([Load_dotenv], Inl e)
      | None \<Rightarrow>
     (case client_outcome w of
        Some e \<Rightarrow>
          ([Load_dotenv, MCPClient_from_config_file (config_path env ''airbnb_mcp.json'')], Inl e)
      | None \<Rightarrow>
     (case llm_outcome w of
        Some e \<Rightarrow>
          ([Load_dotenv, MCPClient_from_config_file (config_path env ''airbnb_mcp.json''),
            ChatOllama_init ''qwen3:30b'' ''http://localhost:11434'' (- (1 / 10))], Inl e)
      | None \<Rightarrow>
     (case agent_outcome w of
        Some e \<Rightarrow>
          ([Load_dotenv, MCPClient_from_config_file (config_path env ''airbnb_mcp.json''),
            ChatOllama_init ''qwen3:30b'' ''http://localhost:11434'' (- (1 / 10)),
            MCPAgent_init ollama (airbnb_client env) 10 (Some True)], Inl e)
      | None \<Rightarrow>
          ([Load_dotenv, MCPClient_from_config_file (config_path env ''airbnb_mcp.json''),
            ChatOllama_init ''qwen3:30b'' ''http://localhost:11434'' (- (1 / 10)),
            MCPAgent_init ollama (airbnb_client env) 10 (Some True),
            Agent_run (Agent ollama (airbnb_client env) 10 (Some True)) airbnb_task 30] @
           (case agent_run_outcome w of Inl e \<Rightarrow> [] | Inr r \<Rightarrow> [Print (result_fstring r)]) @
           Sessions_read (airbnb_client env) (sessions_value w) #
           (if sessions_value w \<noteq> [] then [Close_all_sessions (airbnb_client env)] else []),
           case (if sessions_value w \<noteq> [] then close_outcome w else None) of
             Some e' \<Rightarrow> Inl e'
           | None \<Rightarrow>
               (case agent_run_outcome w of
                  Inl e \<Rightarrow> Inl e
                | Inr r \<Rightarrow> (case print_outcome w of None \<Rightarrow> Inr () | Some e \<Rightarrow> Inl e))
          )))))"
  unfolding run_airbnb_example_def load_dotenv_def from_config_file_def ChatOllama_def MCPAgent_def
  by (cases "load_dotenv_outcome w"; cases "client_outcome w"; cases "llm_outcome w";
      cases "agent_outcome w")
     (simp_all add: bind_call_None bind_call_Some trace_pair outcome_pair run_then_print
        cleanup_block try_finally_def split: option.splits)

lemma browser_main_eq:
  "browser_main env w =
     (case load_dotenv_outcome w of
        Some e \<Rightarrow> ([Load_dotenv], Inl e)
      | None \<Rightarrow>
     (case client_outcome w of
        Some e \<Rightarrow>
          ([Load_dotenv, MCPClient_from_config_file (config_path env ''browser_mcp.json'')], Inl e)
      | None \<Rightarrow>
     (case llm_outcome w of
        Some e \<Rightarrow>
          ([Load_dotenv, MCPClient_from_config_file (config_path env ''browser_mcp.json''),
            ChatOllama_init ''qwen3:30b'' ''http://localhost:11434'' (- (1 / 10))], Inl e)
      | None \<Rightarrow>
     (case agent_outcome w of
        Some e \<Rightarrow>
          ([Load_dotenv, MCPClient_from_config_file (config_path env ''browser_mcp.json''),
            ChatOllama_init ''qwen3:30b'' ''http://localhost:11434'' (- (1 / 10)),
            MCPAgent_init ollama (browser_client env) 10 None], Inl e)
      | None \<Rightarrow>
          ([Load_dotenv, MCPClient_from_config_file (config_path env ''browser_mcp.json''),
            ChatOllama_init ''qwen3:30b'' ''http://localhost:11434'' (- (1 / 10)),
            MCPAgent_init ollama (browser_client env) 10 None,
            Agent_run (Agent ollama (browser_client env) 10 None) browser_task 30] @
           (case agent_run_outcome w of Inl e \<Rightarrow> [] | Inr r \<Rightarrow> [Print (result_fstring r)]),
           case agent_run_outcome w of
             Inl e \<Rightarrow> Inl e
           | Inr r \<Rightarrow> (case print_outcome w of None \<Rightarrow> Inr () | Some e \<Rightarrow> Inl e))))))"
  unfolding browser_main_def load_dotenv_def from_config_file_def ChatOllama_def MCPAgent_def
  by (cases "load_dotenv_outcome w"; cases "client_outcome w"; cases "llm_outcome w";
      cases "agent_outcome w")
     (simp_all add: bind_call_None bind_call_Some trace_pair outcome_pair run_then_print)

lemma everything_main_eq:
  "everything_main w =
     (case load_dotenv_outcome w of
        Some e \<Rightarrow> ([Load_dotenv], Inl e)
      | None \<Rightarrow>
     (case client_outcome w of
        Some e \<Rightarrow> ([Load_dotenv, MCPClient_init everything_server], Inl e)
      | None \<Rightarrow>
     (case llm_outcome w of
        Some e \<Rightarrow>
          ([Load_dotenv, MCPClient_init everything_server,
            ChatOllama_init ''qwen3:30b'' ''http://localhost:11434'' (- (1 / 10))], Inl e)
      | None \<Rightarrow>
     (case agent_outcome w of
        Some e \<Rightarrow>
          ([Load_dotenv, MCPClient_init everything_server,
            ChatOllama_init ''qwen3:30b'' ''http://localhost:11434'' (- (1 / 10)),
            MCPAgent_init ollama (Client_of_config everything_server) 30 None], Inl e)
      | None \<Rightarrow>
          ([Load_dotenv, MCPClient_init everything_server,
            ChatOllama_init ''qwen3:30b'' ''http://localhost:11434'' (- (1 / 10)),
            MCPAgent_init ollama (Client_of_config everything_server) 30 None,
            Agent_run (Agent ollama (Client_of_config everything_server) 30 None)
              everything_task 30] @
           (case agent_run_outcome w of Inl e \<Rightarrow> [] | Inr r \<Rightarrow> [Print (result_fstring r)]),
           case agent_run_outcome w of
             Inl e \<Rightarrow> Inl e
           | Inr r \<Rightarrow> (case print_outcome w of None \<Rightarrow> Inr () | Some e \<Rightarrow> Inl e))))))"
  unfolding everything_main_def load_dotenv_def MCPClient_def ChatOllama_def MCPAgent_def
  by (cases "load_dotenv_outcome w"; cases "client_outcome w"; cases "llm_outcome w";
      cases "agent_outcome w")
     (simp_all add: bind_call_None bind_call_Some trace_pair outcome_pair run_then_print)

lemmas run_eqs = run_airbnb_example_eq browser_main_eq everything_main_eq trace_pair outcome_pair

section \<open>The cleanup block of the Airbnb script\<close>

lemma airbnb_path_example:
  "config_path (env_main ''/srv/examples/airbnb_use.py'') ''airbnb_mcp.json'' =
     ''/srv/examples/airbnb_mcp.json''"
  by (simp add: env_main_def os_path_dirname_def os_path_join_def rfind_def rstrip_def)

text \<open>
  C1. Whenever a run of \<^verbatim>\<open>run_airbnb_example\<close> gets as far as calling
  \<^verbatim>\<open>agent.run\<close>, then whatever that call does (return or raise) the
  \<^verbatim>\<open>finally\<close> block is entered afterwards: the script reads
  \<^verbatim>\<open>client.sessions\<close> later in the same run.
\<close>

theorem airbnb_cleanup_reached:
  "Agent_run a task n \<in> set (trace (run_airbnb_example env w)) \<Longrightarrow>
   \<exists>pre post. trace (run_airbnb_example env w) = pre @ Agent_run a task n # post \<and>
      Sessions_read (airbnb_client env) (sessions_value w) \<in> set post"
proof -
  assume called: "Agent_run a task n \<in> set (trace (run_airbnb_example env w))"
  let ?c = "airbnb_client env"
  let ?pre = "[Load_dotenv, MCPClient_from_config_file (config_path env ''airbnb_mcp.json''),
            ChatOllama_init ''qwen3:30b'' ''http://localhost:11434'' (- (1 / 10)),
            MCPAgent_init ollama ?c 10 (Some True)]"
  let ?post = "(case agent_run_outcome w of Inl e \<Rightarrow> [] | Inr r \<Rightarrow> [Print (result_fstring r)]) @
           Sessions_read ?c (sessions_value w) #
           (if sessions_value w \<noteq> [] then [Close_all_sessions ?c] else [])"
  from called have started:
    "load_dotenv_outcome w = None \<and> client_outcome w = None \<and> llm_outcome w = None \<and>
     agent_outcome w = None"
    by (auto simp: run_airbnb_example_eq trace_def split: option.splits)
  with called have arg:
    "Agent_run a task n = Agent_run (Agent ollama ?c 10 (Some True)) airbnb_task 30"
    by (auto simp: run_airbnb_example_eq trace_def split: option.splits sum.splits if_splits)
  from started have "trace (run_airbnb_example env w) = ?pre @ Agent_run a task n # ?post"
    by (simp add: run_airbnb_example_eq trace_def arg)
  moreover have "Sessions_read ?c (sessions_value w) \<in> set ?post"
    by simp
  ultimately show ?thesis by blast
qed

text \<open>The same at two runs: the agent answers, and the agent raises.\<close>

theorem airbnb_cleanup_reached_witness:
  "(\<exists>pre post.
      trace (run_airbnb_example (env_main ''/srv/examples/airbnb_use.py'') world_ok) =
        pre @ Agent_run (Agent ollama (Client_from_config_file ''/srv/examples/airbnb_mcp.json'')
                10 (Some True)) airbnb_task 30 # post \<and>
      Sessions_read (Client_from_config_file ''/srv/examples/airbnb_mcp.json'') [''airbnb'']
        \<in> set post) \<and>
   (\<exists>pre post.
      trace (run_airbnb_example (env_main ''/srv/examples/airbnb_use.py'') world_agent_fails) =
        pre @ Agent_run (Agent ollama (Client_from_config_file ''/srv/examples/airbnb_mcp.json'')
                10 (Some True)) airbnb_task 30 # post \<and>
      Sessions_read (Client_from_config_file ''/srv/examples/airbnb_mcp.json'') [''airbnb'']
        \<in> set post)"
  using
    airbnb_cleanup_reached [of
      "Agent ollama (Client_from_config_file ''/srv/examples/airbnb_mcp.json'') 10 (Some True)"
      airbnb_task 30 "env_main ''/srv/examples/airbnb_use.py''" world_ok]
    airbnb_cleanup_reached [of
      "Agent ollama (Client_from_config_file ''/srv/examples/airbnb_mcp.json'') 10 (Some True)"
      airbnb_task 30 "env_main ''/srv/examples/airbnb_use.py''" world_agent_fails]
  by (simp add: run_airbnb_example_eq trace_def airbnb_path_example world_ok_def
      world_agent_fails_def)

text \<open>
  C2. In \<^verbatim>\<open>run_airbnb_example\<close>, \<^verbatim>\<open>close_all_sessions\<close> is called exactly in the
  runs where the script has read \<^verbatim>\<open>client.sessions\<close> (at the end of the run, in the
  cleanup block) and found it non-empty; when the client reports no open session there is
  no close call.
\<close>

theorem airbnb_close_iff_sessions:
  "((\<exists>c. Close_all_sessions c \<in> set (trace (run_airbnb_example env w))) =
    (\<exists>c ss. Sessions_read c ss \<in> set (trace (run_airbnb_example env w)) \<and> ss \<noteq> [])) \<and>
   (\<forall>c ss. Sessions_read c ss \<in> set (trace (run_airbnb_example env w)) \<longrightarrow>
      ss = sessions_value w) \<and>
   (sessions_value w = [] \<longrightarrow>
      (\<forall>c. Close_all_sessions c \<notin> set (trace (run_airbnb_example env w))))"
  by (auto simp: run_airbnb_example_eq trace_def split: option.splits sum.splits if_splits)

theorem airbnb_close_iff_sessions_witness:
  "Close_all_sessions (Client_from_config_file ''/srv/examples/airbnb_mcp.json'')
     \<in> set (trace (run_airbnb_example (env_main ''/srv/examples/airbnb_use.py'') world_ok)) \<and>
   Sessions_read (Client_from_config_file ''/srv/examples/airbnb_mcp.json'') [''airbnb'']
     \<in> set (trace (run_airbnb_example (env_main ''/srv/examples/airbnb_use.py'') world_ok)) \<and>
   Sessions_read (Client_from_config_file ''/srv/examples/airbnb_mcp.json'') []
     \<in> set (trace (run_airbnb_example (env_main ''/srv/examples/airbnb_use.py'') world_no_sessions)) \<and>
   Close_all_sessions (Client_from_config_file ''/srv/examples/airbnb_mcp.json'')
     \<notin> set (trace (run_airbnb_example (env_main ''/srv/examples/airbnb_use.py'') world_no_sessions))"
  using
    airbnb_close_iff_sessions [of "env_main ''/srv/examples/airbnb_use.py''" world_ok]
    airbnb_close_iff_sessions [of "env_main ''/srv/examples/airbnb_use.py''" world_no_sessions]
  by (simp add: run_airbnb_example_eq trace_def airbnb_path_example world_ok_def
      world_no_sessions_def)

section \<open>What leaves the Airbnb entry point when the agent fails\<close>

text \<open>
  C3, as stated, fails in the run where \<^verbatim>\<open>agent.run\<close> raises, a session is open,
  and \<^verbatim>\<open>close_all_sessions\<close> raises too: the exception of the cleanup block leaves
  the entry point, not the agent's.
\<close>

theorem airbnb_exception_replaced_counterexample:
  "agent_run_outcome world_close_fails = Inl (PyExc ''agent failed'') \<and>
   Agent_run (Agent ollama (Client_from_config_file ''/srv/examples/airbnb_mcp.json'') 10 (Some True))
       airbnb_task 30
     \<in> set (trace (run_airbnb_example (env_main ''/srv/examples/airbnb_use.py'') world_close_fails)) \<and>
   outcome (run_airbnb_example (env_main ''/srv/examples/airbnb_use.py'') world_close_fails) =
     Inl (PyExc ''close failed'') \<and>
   outcome (run_airbnb_example (env_main ''/srv/examples/airbnb_use.py'') world_close_fails) \<noteq>
     Inl (PyExc ''agent failed'')"
  by (simp add: run_airbnb_example_eq trace_def outcome_def airbnb_path_example world_ok_def
      world_agent_fails_def world_close_fails_def)

text \<open>
  C3, amended. If \<^verbatim>\<open>agent.run\<close> is called and raises \<open>e\<close>, the cleanup block
  runs, and \<open>e\<close> itself leaves \<^verbatim>\<open>run_airbnb_example\<close> provided the cleanup
  block returns normally (no session is open, or \<^verbatim>\<open>close_all_sessions\<close> returns);
  if \<^verbatim>\<open>close_all_sessions\<close> raises, its exception leaves instead.
\<close>

theorem airbnb_exception_propagates:
  "Agent_run a t n \<in> set (trace (run_airbnb_example env w)) \<Longrightarrow>
   agent_run_outcome w = Inl e \<Longrightarrow>
   Sessions_read (airbnb_client env) (sessions_value w) \<in> set (trace (run_airbnb_example env w)) \<and>
   outcome (run_airbnb_example env w) =
     (case (if sessions_value w \<noteq> [] then close_outcome w else None) of
        None \<Rightarrow> Inl e
      | Some e' \<Rightarrow> Inl e')"
  by (auto simp: run_airbnb_example_eq trace_def outcome_def split: option.splits sum.splits if_splits)

theorem airbnb_exception_propagates_witness:
  "Sessions_read (Client_from_config_file ''/srv/examples/airbnb_mcp.json'') [''airbnb'']
     \<in> set (trace (run_airbnb_example (env_main ''/srv/examples/airbnb_use.py'') world_agent_fails)) \<and>
   outcome (run_airbnb_example (env_main ''/srv/examples/airbnb_use.py'') world_agent_fails) =
     Inl (PyExc ''agent failed'')"
  using airbnb_exception_propagates [of
      "Agent ollama (Client_from_config_file ''/srv/examples/airbnb_mcp.json'') 10 (Some True)"
      airbnb_task 30 "env_main ''/srv/examples/airbnb_use.py''" world_agent_fails
      "PyExc ''agent failed''"]
  by (simp add: run_airbnb_example_eq trace_def airbnb_path_example world_ok_def
      world_agent_fails_def)

section \<open>The values handed to the libraries\<close>

lemma browser_path_example:
  "config_path (env_main ''/srv/examples/browser_use.py'') ''browser_mcp.json'' =
     ''/srv/examples/browser_mcp.json''"
  by (simp add: env_main_def os_path_dirname_def os_path_join_def rfind_def rstrip_def)


text \<open>
  C4. The configuration that \<^verbatim>\<open>mcp_everything.py\<close> passes to the client constructor
  has, under \<^verbatim>\<open>mcpServers\<close>, exactly one entry; its name is \<^verbatim>\<open>everything\<close>, its
  command \<^verbatim>\<open>npx\<close> and its argument list
  \<^verbatim>\<open>["-y", "@modelcontextprotocol/server-everything"]\<close>.
\<close>

theorem everything_config_one_server:
  "MCPClient_init cfg \<in> set (trace (everything_main w)) \<Longrightarrow>
   \<exists>servers entry.
     dict_get cfg ''mcpServers'' = Some servers \<and>
     dict_keys servers = Some [''everything''] \<and>
     dict_get servers ''everything'' = Some entry \<and>
     dict_get entry ''command'' = Some (Str ''npx'') \<and>
     dict_get entry ''args'' =
       Some (List [Str ''-y'', Str ''@modelcontextprotocol/server-everything''])"
proof -
  assume "MCPClient_init cfg \<in> set (trace (everything_main w))"
  then have "cfg = everything_server"
    by (auto simp: everything_main_eq trace_def split: option.splits sum.splits)
  then show ?thesis
    by (simp add: everything_server_def)
qed

theorem everything_config_one_server_witness:
  "\<exists>servers entry.
     dict_get everything_server ''mcpServers'' = Some servers \<and>
     dict_keys servers = Some [''everything''] \<and>
     dict_get servers ''everything'' = Some entry \<and>
     dict_get entry ''command'' = Some (Str ''npx'') \<and>
     dict_get entry ''args'' =
       Some (List [Str ''-y'', Str ''@modelcontextprotocol/server-everything''])"
  using everything_config_one_server [of everything_server world_ok]
  by (simp add: everything_main_eq trace_def world_ok_def)

text \<open>
  C8. The scripts hand the values they build to the libraries as they are: the client
  constructor of \<^verbatim>\<open>mcp_everything.py\<close> receives the module's
  \<^verbatim>\<open>everything_server\<close> mapping, and \<^verbatim>\<open>agent.run\<close> receives, in each script,
  the string literal written at the call.
\<close>

theorem arguments_passed_unchanged:
  "(MCPClient_init cfg \<in> set (trace (everything_main w)) \<longrightarrow> cfg = everything_server) \<and>
   (Agent_run a t n \<in> set (trace (everything_main w)) \<longrightarrow> t = everything_task) \<and>
   (Agent_run a t n \<in> set (trace (run_airbnb_example env w)) \<longrightarrow> t = airbnb_task) \<and>
   (Agent_run a t n \<in> set (trace (browser_main env w)) \<longrightarrow> t = browser_task)"
  by (auto simp: run_eqs trace_def split: option.splits sum.splits if_splits)

theorem arguments_passed_unchanged_witness:
  "MCPClient_init everything_server \<in> set (trace (everything_main world_ok)) \<and>
   Agent_run (Agent ollama (Client_of_config everything_server) 30 None) everything_task 30
     \<in> set (trace (everything_main world_ok)) \<and>
   Agent_run (Agent ollama (Client_from_config_file ''/srv/examples/airbnb_mcp.json'') 10 (Some True))
       airbnb_task 30
     \<in> set (trace (run_airbnb_example (env_main ''/srv/examples/airbnb_use.py'') world_ok)) \<and>
   Agent_run (Agent ollama (Client_from_config_file ''/srv/examples/browser_mcp.json'') 10 None)
       browser_task 30
     \<in> set (trace (browser_main (env_main ''/srv/examples/browser_use.py'') world_ok))"
  using
    arguments_passed_unchanged [of everything_server world_ok
      "Agent ollama (Client_of_config everything_server) 30 None" everything_task 30
      "env_main ''/srv/examples/airbnb_use.py''"]
  by (simp add: run_eqs trace_def airbnb_path_example browser_path_example world_ok_def)

text \<open>
  C10. Each of the three scripts builds its language model with model name
  \<^verbatim>\<open>qwen3:30b\<close>, base URL \<^verbatim>\<open>http://localhost:11434\<close> and temperature
  \<^verbatim>\<open>-0.1\<close>, which is below zero.
\<close>

theorem llm_parameters:
  "(ChatOllama_init m b t \<in> set (trace (run_airbnb_example env w)) \<or>
    ChatOllama_init m b t \<in> set (trace (browser_main env w)) \<or>
    ChatOllama_init m b t \<in> set (trace (everything_main w))) \<Longrightarrow>
   m = ''qwen3:30b'' \<and> b = ''http://localhost:11434'' \<and> t = - (1 / 10) \<and> t < 0"
  by (auto simp: run_eqs trace_def split: option.splits sum.splits if_splits)

theorem llm_parameters_witness:
  "ChatOllama_init ''qwen3:30b'' ''http://localhost:11434'' (- (1 / 10))
     \<in> set (trace (run_airbnb_example (env_main ''/srv/examples/airbnb_use.py'') world_ok)) \<and>
   ChatOllama_init ''qwen3:30b'' ''http://localhost:11434'' (- (1 / 10))
     \<in> set (trace (browser_main (env_main ''/srv/examples/browser_use.py'') world_ok)) \<and>
   ChatOllama_init ''qwen3:30b'' ''http://localhost:11434'' (- (1 / 10))
     \<in> set (trace (everything_main world_ok)) \<and>
   (- (1 / 10) :: rat) < 0"
  using
    llm_parameters [of "''qwen3:30b''" "''http://localhost:11434''" "- (1 / 10)"
      "env_main ''/srv/examples/airbnb_use.py''" world_ok]
  by (simp add: run_eqs trace_def world_ok_def)

section \<open>The main-program guard\<close>

lemma import_modules_snoc:
  "import_modules w (ms @ [n]) =
     bind (import_modules w ms) (\<lambda>u. call (Import_module n) (import_outcome w n) ())"
  by (simp add: import_modules_def)

lemma import_modules_only_imports: "list_all is_import (trace (import_modules w ms))"
proof (induction ms rule: rev_induct)
  case Nil
  then show ?case by (simp add: import_modules_def ret_def trace_def)
next
  case (snoc n ms)
  then show ?case
    by (simp add: import_modules_snoc trace_bind call_def trace_pair split: sum.splits)
qed

lemma guarded_module_trace:
  "trace (bind (import_modules w ms) (\<lambda>u. if name = ''__main__'' then asyncio_run entry else ret ())) =
     (if name = ''__main__'' \<and> outcome (import_modules w ms) = Inr ()
      then trace (import_modules w ms) @ Asyncio_run # trace entry
      else trace (import_modules w ms))"
  by (cases "outcome (import_modules w ms)")
     (simp_all add: trace_bind asyncio_run_def ret_def trace_pair outcome_pair)

lemma no_asyncio_run_in_imports: "Asyncio_run \<notin> set (trace (import_modules w ms))"
  using import_modules_only_imports [of w ms] by (auto simp: list_all_iff)

lemma import_modules_all_succeed:
  "import_modules world_ok ms = (map Import_module ms, Inr ())"
proof (induction ms rule: rev_induct)
  case Nil
  then show ?case by (simp add: import_modules_def ret_def)
next
  case (snoc n ms)
  then show ?case
    by (simp add: import_modules_snoc bind_def call_def world_ok_def)
qed

lemma airbnb_use_trace:
  "trace (airbnb_use env w) =
     (if dunder_name env = ''__main__'' \<and>
         outcome (import_modules w
           [''asyncio'', ''os'', ''dotenv'', ''langchain_ollama'', ''mcp_use'']) = Inr ()
      then trace (import_modules w
             [''asyncio'', ''os'', ''dotenv'', ''langchain_ollama'', ''mcp_use'']) @
           Asyncio_run # trace (run_airbnb_example env w)
      else trace (import_modules w
             [''asyncio'', ''os'', ''dotenv'', ''langchain_ollama'', ''mcp_use'']))"
  by (simp only: airbnb_use_def guarded_module_trace)

lemma browser_use_trace:
  "trace (browser_use env w) =
     (if dunder_name env = ''__main__'' \<and>
         outcome (import_modules w
           [''asyncio'', ''os'', ''dotenv'', ''langchain_ollama'', ''mcp_use'']) = Inr ()
      then trace (import_modules w
             [''asyncio'', ''os'', ''dotenv'', ''langchain_ollama'', ''mcp_use'']) @
           Asyncio_run # trace (browser_main env w)
      else trace (import_modules w
             [''asyncio'', ''os'', ''dotenv'', ''langchain_ollama'', ''mcp_use'']))"
  by (simp only: browser_use_def guarded_module_trace)

lemma mcp_everything_trace:
  "trace (mcp_everything env w) =
     (if dunder_name env = ''__main__'' \<and>
         outcome (import_modules w [''asyncio'', ''dotenv'', ''langchain_ollama'', ''mcp_use'']) =
           Inr ()
      then trace (import_modules w [''asyncio'', ''dotenv'', ''langchain_ollama'', ''mcp_use'']) @
           Asyncio_run # trace (everything_main w)
      else trace (import_modules w [''asyncio'', ''dotenv'', ''langchain_ollama'', ''mcp_use'']))"
  by (simp only: mcp_everything_def guarded_module_trace)

lemmas module_traces = airbnb_use_trace browser_use_trace mcp_everything_trace

text \<open>
  C5. In each of the three modules, \<^verbatim>\<open>asyncio.run\<close> of the entry point happens only
  when \<^verbatim>\<open>__name__\<close> is \<^verbatim>\<open>__main__\<close>; when the module is imported under any
  other name, its own import statements are all that runs.
\<close>

theorem entry_point_only_as_main:
  "(Asyncio_run \<in> set (trace (airbnb_use env w)) \<longrightarrow> dunder_name env = ''__main__'') \<and>
   (Asyncio_run \<in> set (trace (browser_use env w)) \<longrightarrow> dunder_name env = ''__main__'') \<and>
   (Asyncio_run \<in> set (trace (mcp_everything env w)) \<longrightarrow> dunder_name env = ''__main__'') \<and>
   (dunder_name env \<noteq> ''__main__'' \<longrightarrow>
      list_all is_import (trace (airbnb_use env w)) \<and>
      list_all is_import (trace (browser_use env w)) \<and>
      list_all is_import (trace (mcp_everything env w)))"
  by (simp add: module_traces no_asyncio_run_in_imports import_modules_only_imports)

theorem entry_point_only_as_main_witness:
  "Asyncio_run \<in> set (trace (airbnb_use (env_main ''/srv/examples/airbnb_use.py'') world_ok)) \<and>
   Asyncio_run \<in> set (trace (browser_use (env_main ''/srv/examples/browser_use.py'') world_ok)) \<and>
   Asyncio_run \<in> set (trace (mcp_everything (env_main ''/srv/examples/mcp_everything.py'') world_ok)) \<and>
   dunder_name (env_main ''/srv/examples/airbnb_use.py'') = ''__main__'' \<and>
   dunder_name (env_imported ''/srv/examples/airbnb_use.py'') \<noteq> ''__main__'' \<and>
   trace (airbnb_use (env_imported ''/srv/examples/airbnb_use.py'') world_ok) =
     [Import_module ''asyncio'', Import_module ''os'', Import_module ''dotenv'',
      Import_module ''langchain_ollama'', Import_module ''mcp_use''] \<and>
   list_all is_import (trace (airbnb_use (env_imported ''/srv/examples/airbnb_use.py'') world_ok))"
  using
    entry_point_only_as_main [of "env_main ''/srv/examples/airbnb_use.py''" world_ok]
    entry_point_only_as_main [of "env_imported ''/srv/examples/airbnb_use.py''" world_ok]
  by (simp add: module_traces import_modules_all_succeed trace_pair outcome_pair env_main_def
      env_imported_def)

section \<open>What a run prints\<close>

lemma lines_of_terminated:
  "length (lines_of (s @ [CHR 0x0A])) = Suc (count_list s (CHR 0x0A))"
proof (induction s)
  case Nil
  then show ?case by simp
next
  case (Cons c s)
  then show ?case
    by (cases "lines_of (s @ [CHR 0x0A])") auto
qed

lemma lines_of_result:
  "length (lines_of (result_fstring r @ [CHR 0x0A])) = 2 + count_list r (CHR 0x0A)"
proof -
  have "lines_of (result_fstring r @ [CHR 0x0A]) = [] # lines_of ((''Result: '' @ r) @ [CHR 0x0A])"
    by (simp add: result_fstring_def)
  then show ?thesis
    by (simp only: lines_of_terminated list.size) simp
qed

lemma line_breaks_le_lines: "count_list s (CHR 0x0A) \<le> length (lines_of s)"
proof (induction s)
  case Nil
  then show ?case by simp
next
  case (Cons c s)
  then show ?case
    by (cases "lines_of s") auto
qed

lemma printed_not_print: "\<not> is_print e \<Longrightarrow> printed w e = library_output w e"
  by (cases e) auto

lemma stdout_text_Cons: "stdout_text w (e # t) = printed w e @ stdout_text w t"
  by (simp add: stdout_text_def)

lemma stdout_text_Nil: "stdout_text w [] = []"
  by (simp add: stdout_text_def)

lemma silent_no_print:
  "libraries_silent w t \<Longrightarrow> filter is_print t = [] \<Longrightarrow> stdout_text w t = []"
proof (induction t)
  case Nil
  then show ?case by (simp add: stdout_text_Nil)
next
  case (Cons e t)
  then show ?case
    by (cases "is_print e")
       (auto simp: stdout_text_Cons libraries_silent_def printed_not_print)
qed

lemma silent_one_print:
  "libraries_silent w t \<Longrightarrow> filter is_print t = [Print s] \<Longrightarrow>
   stdout_text w t = s @ [CHR 0x0A]"
proof (induction t)
  case Nil
  then show ?case by simp
next
  case (Cons e t)
  show ?case
  proof (cases "is_print e")
    case True
    with Cons.prems(2) have e: "e = Print s" and rest: "filter is_print t = []"
      by simp_all
    from Cons.prems(1) have quiet: "libraries_silent w t"
      by (simp add: libraries_silent_def)
    from quiet rest have "stdout_text w t = []"
      by (rule silent_no_print)
    with e show ?thesis
      by (simp add: stdout_text_Cons)
  next
    case False
    with Cons.prems have "libraries_silent w t" "filter is_print t = [Print s]"
      "library_output w e = []"
      by (simp_all add: libraries_silent_def)
    with Cons.IH False show ?thesis
      by (simp add: stdout_text_Cons printed_not_print)
  qed
qed

lemma print_in_stdout:
  "Print s \<in> set t \<Longrightarrow>
   Suc (count_list s (CHR 0x0A)) \<le> count_list (stdout_text w t) (CHR 0x0A)"
proof (induction t)
  case Nil
  then show ?case by simp
next
  case (Cons e t)
  then show ?case
    by (cases "e = Print s") (auto simp: stdout_text_Cons)
qed

lemma result_line_breaks:
  "count_list (result_fstring r) (CHR 0x0A) = Suc (count_list r (CHR 0x0A))"
  by (simp add: result_fstring_def)

lemma normal_run_prints_once:
  "outcome (entry_point s env w) = Inr () \<Longrightarrow>
   agent_run_outcome w = Inr (agent_result w) \<and>
   filter is_print (trace (entry_point s env w)) = [Print (result_fstring (agent_result w))]"
  by (cases s)
     (auto simp: run_eqs outcome_def trace_def agent_result_def
        split: option.splits sum.splits if_splits)

text \<open>
  C6, as stated, fails. In this run of \<^verbatim>\<open>browser_use.py\<close> every call returns, the
  libraries write nothing, and the agent's answer has two lines: standard output receives
  three lines, an empty one and the two of the result.
\<close>

theorem printed_lines_counterexample:
  "outcome (entry_point Browser_use (env_main ''/srv/examples/browser_use.py'') world_two_lines) =
     Inr () \<and>
   lines_of (stdout_text world_two_lines
     (trace (entry_point Browser_use (env_main ''/srv/examples/browser_use.py'') world_two_lines))) =
     ['''', ''Result: first'', ''second''] \<and>
   libraries_silent world_two_lines
     (trace (entry_point Browser_use (env_main ''/srv/examples/browser_use.py'') world_two_lines))"
  by (simp add: browser_main_eq trace_def outcome_def stdout_text_def result_fstring_def
      libraries_silent_def world_two_lines_def world_ok_def)

text \<open>
  C6, amended. In a run of any of the three entry points that completes normally, the script
  itself makes exactly one \<^verbatim>\<open>print\<close> call. The call writes a line break,
  \<^verbatim>\<open>Result: \<close>, the text the agent returned and the closing line break of
  \<^verbatim>\<open>print\<close>: two lines plus one for each line break in the result. Standard output
  of the run holds at least that many lines, whatever the library calls write there, and is
  exactly the printed text when they write nothing.
\<close>

theorem one_print_per_normal_run:
  assumes "outcome (entry_point s env w) = Inr ()"
  shows "agent_run_outcome w = Inr (agent_result w) \<and>
    filter is_print (trace (entry_point s env w)) = [Print (result_fstring (agent_result w))] \<and>
    length (lines_of (printed w (Print (result_fstring (agent_result w))))) =
      2 + count_list (agent_result w) (CHR 0x0A) \<and>
    2 + count_list (agent_result w) (CHR 0x0A) \<le>
      length (lines_of (stdout_text w (trace (entry_point s env w)))) \<and>
    (libraries_silent w (trace (entry_point s env w)) \<longrightarrow>
       stdout_text w (trace (entry_point s env w)) =
         result_fstring (agent_result w) @ [CHR 0x0A])"
proof -
  let ?t = "trace (entry_point s env w)"
  let ?r = "agent_result w"
  from assms have once: "agent_run_outcome w = Inr ?r"
    "filter is_print ?t = [Print (result_fstring ?r)]"
    using normal_run_prints_once by blast+
  have "Print (result_fstring ?r) \<in> set (filter is_print ?t)"
    by (simp add: once(2))
  then have "Print (result_fstring ?r) \<in> set ?t"
    by simp
  then have "Suc (count_list (result_fstring ?r) (CHR 0x0A)) \<le>
      count_list (stdout_text w ?t) (CHR 0x0A)"
    by (rule print_in_stdout)
  also have "\<dots> \<le> length (lines_of (stdout_text w ?t))"
    by (rule line_breaks_le_lines)
  finally have bound: "2 + count_list ?r (CHR 0x0A) \<le> length (lines_of (stdout_text w ?t))"
    by (simp add: result_line_breaks)
  have silent: "libraries_silent w ?t \<longrightarrow> stdout_text w ?t = result_fstring ?r @ [CHR 0x0A]"
    using once(2) silent_one_print by blast
  have "length (lines_of (printed w (Print (result_fstring ?r)))) = 2 + count_list ?r (CHR 0x0A)"
    by (simp add: lines_of_result)
  with once bound silent show ?thesis by blast
qed

text \<open>
  The same at a run of \<^verbatim>\<open>airbnb_use.py\<close> whose agent reports a step on standard
  output, and at a run of \<^verbatim>\<open>mcp_everything.py\<close> with silent libraries.
\<close>

theorem one_print_per_normal_run_witness:
  "outcome (entry_point Airbnb_use (env_main ''/srv/examples/airbnb_use.py'') world_verbose) = Inr () \<and>
   agent_result world_verbose = ''first'' @ [CHR 0x0A] @ ''second'' \<and>
   filter is_print (trace (entry_point Airbnb_use (env_main ''/srv/examples/airbnb_use.py'')
     world_verbose)) = [Print (result_fstring (''first'' @ [CHR 0x0A] @ ''second''))] \<and>
   3 \<le> length (lines_of (stdout_text world_verbose
     (trace (entry_point Airbnb_use (env_main ''/srv/examples/airbnb_use.py'') world_verbose)))) \<and>
   outcome (entry_point Mcp_everything (env_main ''/srv/examples/mcp_everything.py'') world_ok) =
     Inr () \<and>
   libraries_silent world_ok
     (trace (entry_point Mcp_everything (env_main ''/srv/examples/mcp_everything.py'') world_ok)) \<and>
   stdout_text world_ok
     (trace (entry_point Mcp_everything (env_main ''/srv/examples/mcp_everything.py'') world_ok)) =
     result_fstring ''ok'' @ [CHR 0x0A]"
  using
    one_print_per_normal_run [of Airbnb_use "env_main ''/srv/examples/airbnb_use.py''"
      world_verbose]
    one_print_per_normal_run [of Mcp_everything "env_main ''/srv/examples/mcp_everything.py''"
      world_ok]
  by (simp add: run_eqs outcome_def trace_def agent_result_def libraries_silent_def
      world_verbose_def world_two_lines_def world_ok_def)

section \<open>Branching in the entry points\<close>







section \<open>The path of the configuration file\<close>










end
